theory Spec2Isabelle
  imports Main
begin

section \<open>Session token manager of the Homefinder frontend\<close>

text \<open>
  The development embeds the token renewal routine \<^verbatim>\<open>refreshToken\<close> (the module that
  imports \<^verbatim>\<open>getRefreshToken\<close>, \<^verbatim>\<open>setTokens\<close> and \<^verbatim>\<open>clearTokens\<close> from
  \<^verbatim>\<open>./authTokenStore\<close> and \<^verbatim>\<open>api\<close> from \<^verbatim>\<open>./axiosInstance\<close>) together with the
  token store it works on.

  Tokens are opaque JavaScript strings, modelled as \<^typ>\<open>string\<close>. A value that is
  either a string or absent (\<^verbatim>\<open>undefined\<close>/\<^verbatim>\<open>null\<close>) is a \<^typ>\<open>string option\<close>.
\<close>

subsection \<open>JavaScript truthiness on optional strings\<close>

text \<open>
  \<^verbatim>\<open>if (x)\<close>, \<^verbatim>\<open>!x\<close> and \<^verbatim>\<open>x || y\<close> test truthiness: an absent value and the
  empty string are falsy, every other string is truthy.
\<close>

fun truthy :: "string option \<Rightarrow> bool" where
  "truthy None = False"
| "truthy (Some s) = (s \<noteq> [])"

definition js_or :: "string option \<Rightarrow> string option \<Rightarrow> string option" where
  "js_or x y = (if truthy x then x else y)"

subsection \<open>The token store\<close>

text \<open>
  The credential pair: an access token and a refresh token, each stored or absent.
\<close>

record token_store =
  stored_access :: "string option"
  stored_refresh :: "string option"

definition empty_store :: token_store where
  "empty_store = \<lparr>stored_access = None, stored_refresh = None\<rparr>"

text \<open>
  Modelled from the spec: the module \<^verbatim>\<open>authTokenStore\<close> is imported by the sources but
  its code is not available. \<^verbatim>\<open>setTokens(access, refresh?)\<close> "stores a new access token;
  refresh is optional so a refresh-only renewal can leave the prior refresh token in
  place"; no validation of the token contents is performed. The sources call it with one
  object, \<^verbatim>\<open>setTokens({ access, refresh })\<close>: its two fields are the two arguments here.
\<close>

definition setTokens :: "string \<Rightarrow> string option \<Rightarrow> token_store \<Rightarrow> token_store" where
  "setTokens a r_opt s =
     (case r_opt of
        None \<Rightarrow> s\<lparr>stored_access := Some a\<rparr>
      | Some r \<Rightarrow> s\<lparr>stored_access := Some a, stored_refresh := Some r\<rparr>)"

text \<open>
  Modelled from the spec: \<^verbatim>\<open>getAccessToken()\<close> of the missing module
  \<^verbatim>\<open>authTokenStore\<close> "returns the currently stored access token, or an absence
  signal if none is stored".
\<close>

definition getAccessToken :: "token_store \<Rightarrow> string option" where
  "getAccessToken s = stored_access s"

text \<open>
  Modelled from the spec: \<^verbatim>\<open>getRefreshToken()\<close> of the missing module
  \<^verbatim>\<open>authTokenStore\<close> "returns the currently stored refresh token, or an absence
  signal if none is stored".
\<close>

definition getRefreshToken :: "token_store \<Rightarrow> string option" where
  "getRefreshToken s = stored_refresh s"

text \<open>
  Modelled from the spec: \<^verbatim>\<open>clearTokens()\<close> of the missing module
  \<^verbatim>\<open>authTokenStore\<close> "removes both tokens".
\<close>

definition clearTokens :: "token_store \<Rightarrow> token_store" where
  "clearTokens s = s\<lparr>stored_access := None, stored_refresh := None\<rparr>"

subsection \<open>The HTTP client\<close>

text \<open>
  A request as \<^verbatim>\<open>api.post(url, body, config)\<close> issues it: the method, the path, the fields
  of the JSON body and the headers of the configuration.
\<close>

record request =
  http_method :: string
  url :: string
  body :: "(string \<times> string) list"
  headers :: "(string \<times> string) list"

text \<open>
  What a rejected promise or a \<^verbatim>\<open>throw\<close> carries: an \<^verbatim>\<open>Error\<close> object built by the
  routine itself with its message, the failure of the HTTP client, with the status of
  the server's answer when there was one (\<open>Some 401\<close>, \<open>Some 500\<close>) and \<open>None\<close> for a
  network failure or a timeout, or the \<^verbatim>\<open>TypeError\<close> that the language raises when
  \<^verbatim>\<open>null\<close> or \<^verbatim>\<open>undefined\<close> is destructured.
\<close>

datatype error = Error string | AxiosError "nat option" | TypeError

text \<open>
  \<^verbatim>\<open>res.data\<close> of a resolved renewal call, by the interface
  \<^verbatim>\<open>{ access: string, refresh?: string }\<close>; a field that is missing, \<^verbatim>\<open>undefined\<close> or
  \<^verbatim>\<open>null\<close> reads as absent. An empty body, which the client hands over as the empty
  string, destructures like an object without fields.
\<close>

record response_data =
  access :: "string option"
  refresh :: "string option"

text \<open>
  How the promise of \<^verbatim>\<open>api.post\<close> settles: rejected with an error, resolved with
  data, or resolved with \<^verbatim>\<open>res.data\<close> being \<^verbatim>\<open>null\<close> or \<^verbatim>\<open>undefined\<close> (a body that
  is the JSON value \<^verbatim>\<open>null\<close>).
\<close>

datatype reply = Rejected error | Resolved response_data | ResolvedNoData

text \<open>
  The running session: the token store and the requests sent so far, oldest first.
\<close>

record session =
  tokens :: token_store
  sent :: "request list"

text \<open>
  \<^verbatim>\<open>await api.post(...)\<close>: the request goes out (it is appended to the log) and the
  backend, a parameter of the model, settles the promise.
\<close>

definition api_post :: "(request \<Rightarrow> reply) \<Rightarrow> request \<Rightarrow> session \<Rightarrow> reply \<times> session" where
  "api_post backend req w = (backend req, w\<lparr>sent := sent w @ [req]\<rparr>)"

text \<open>
  A backend that settles every request with the same reply, for concrete runs.
\<close>

definition always :: "reply \<Rightarrow> request \<Rightarrow> reply" where
  "always rep req = rep"

subsection \<open>The renewal routine\<close>

text \<open>
  The request of the renewal call:
  \<^verbatim>\<open>api.post("/token/refresh/", { refresh }, { headers: { "Content-Type": "application/json" } })\<close>.
\<close>

definition renewal_request :: "string \<Rightarrow> request" where
  "renewal_request r =
     \<lparr>http_method = ''POST'', url = ''/token/refresh/'',
      body = [(''refresh'', r)],
      headers = [(''Content-Type'', ''application/json'')]\<rparr>"

text \<open>
  The body of the \<^verbatim>\<open>try\<close> block, for the local \<^verbatim>\<open>refresh = r\<close>: the call, the
  destructuring \<^verbatim>\<open>const { access, refresh: newRefresh } = res.data\<close>, which throws a
  \<^verbatim>\<open>TypeError\<close> when \<^verbatim>\<open>res.data\<close> is \<^verbatim>\<open>null\<close> or \<^verbatim>\<open>undefined\<close>, the test
  \<^verbatim>\<open>if (access)\<close> with \<^verbatim>\<open>setTokens({ access, refresh: newRefresh || refresh })\<close> and
  \<^verbatim>\<open>return access\<close>, and otherwise \<^verbatim>\<open>throw new Error("Token refresh failed")\<close>.
  \<open>Inl\<close> is a throw.
\<close>

definition try_block :: "(request \<Rightarrow> reply) \<Rightarrow> string \<Rightarrow> session \<Rightarrow> (error + string) \<times> session" where
  "try_block backend r w =
     (case api_post backend (renewal_request r) w of
        (Rejected e, w1) \<Rightarrow> (Inl e, w1)
      | (ResolvedNoData, w1) \<Rightarrow> (Inl TypeError, w1)
      | (Resolved d, w1) \<Rightarrow>
          (case access d of
             None \<Rightarrow> (Inl (Error ''Token refresh failed''), w1)
           | Some a \<Rightarrow>
               if truthy (Some a)
               then (Inr a, w1\<lparr>tokens := setTokens a (js_or (refresh d) (Some r)) (tokens w1)\<rparr>)
               else (Inl (Error ''Token refresh failed''), w1)))"

text \<open>
  \<^verbatim>\<open>refreshToken()\<close>: the guard \<^verbatim>\<open>if (!refresh)\<close> clears the tokens and throws; the
  \<^verbatim>\<open>catch\<close> handler clears the tokens and rethrows whatever the \<^verbatim>\<open>try\<close> block threw.
\<close>

definition refreshToken :: "(request \<Rightarrow> reply) \<Rightarrow> session \<Rightarrow> (error + string) \<times> session" where
  "refreshToken backend w =
     (case getRefreshToken (tokens w) of
        None \<Rightarrow> (Inl (Error ''No refresh token found''), w\<lparr>tokens := clearTokens (tokens w)\<rparr>)
      | Some r \<Rightarrow>
          if \<not> truthy (Some r)
          then (Inl (Error ''No refresh token found''), w\<lparr>tokens := clearTokens (tokens w)\<rparr>)
          else
            (case try_block backend r w of
               (Inl err, w1) \<Rightarrow> (Inl err, w1\<lparr>tokens := clearTokens (tokens w1)\<rparr>)
             | (Inr a, w1) \<Rightarrow> (Inr a, w1)))"

subsection \<open>Sequences of manager operations\<close>

text \<open>
  The operations that change the session, a \<^verbatim>\<open>refreshToken()\<close> call together with the
  backend that answers it, run one after the other from the empty store.
\<close>

datatype op = SetTokens string "string option" | ClearTokens | RefreshToken "request \<Rightarrow> reply"

fun apply_op :: "op \<Rightarrow> session \<Rightarrow> session" where
  "apply_op (SetTokens a r_opt) w = w\<lparr>tokens := setTokens a r_opt (tokens w)\<rparr>"
| "apply_op ClearTokens w = w\<lparr>tokens := clearTokens (tokens w)\<rparr>"
| "apply_op (RefreshToken backend) w = snd (refreshToken backend w)"

fun run :: "op list \<Rightarrow> session \<Rightarrow> session" where
  "run [] w = w"
| "run (p # ps) w = run ps (apply_op p w)"

definition initial_session :: session where
  "initial_session = \<lparr>tokens = empty_store, sent = []\<rparr>"

text \<open>
  The pair is kept as a unit: both tokens are stored or neither is.
\<close>

definition paired :: "token_store \<Rightarrow> bool" where
  "paired s = ((getAccessToken s = None) = (getRefreshToken s = None))"

text \<open>
  A \<^verbatim>\<open>setTokens\<close> call that leaves the refresh argument out is made on a store that
  holds a refresh token; every other operation is unrestricted. A sequence is admissible
  when each of its operations is, in the session it is applied to.
\<close>

fun supplies_pair :: "op \<Rightarrow> session \<Rightarrow> bool" where
  "supplies_pair (SetTokens a None) w = (getRefreshToken (tokens w) \<noteq> None)"
| "supplies_pair p w = True"

fun admissible :: "op list \<Rightarrow> session \<Rightarrow> bool" where
  "admissible [] w = True"
| "admissible (p # ps) w = (supplies_pair p w \<and> admissible ps (apply_op p w))"

section \<open>The outcomes of a renewal\<close>

lemmas store_defs =
  setTokens_def getAccessToken_def getRefreshToken_def clearTokens_def empty_store_def

lemmas routine_defs = refreshToken_def try_block_def api_post_def js_or_def

text \<open>
  The ways through \<^verbatim>\<open>refreshToken()\<close>: the guard fires; the call is rejected; the
  call resolves without data; the call resolves without a truthy access token; the call
  resolves with one.
\<close>

lemma refreshToken_guard:
  assumes "\<not> truthy (getRefreshToken (tokens w))"
  shows "refreshToken backend w =
           (Inl (Error ''No refresh token found''), \<lparr>tokens = empty_store, sent = sent w\<rparr>)"
  using assms by (cases "getRefreshToken (tokens w)") (simp_all add: routine_defs store_defs)

lemma refreshToken_rejected:
  assumes "getRefreshToken (tokens w) = Some r" and "r \<noteq> []"
    and "backend (renewal_request r) = Rejected e"
  shows "refreshToken backend w =
           (Inl e, \<lparr>tokens = empty_store, sent = sent w @ [renewal_request r]\<rparr>)"
  using assms by (simp add: routine_defs store_defs)

lemma refreshToken_no_data:
  assumes "getRefreshToken (tokens w) = Some r" and "r \<noteq> []"
    and "backend (renewal_request r) = ResolvedNoData"
  shows "refreshToken backend w =
           (Inl TypeError, \<lparr>tokens = empty_store, sent = sent w @ [renewal_request r]\<rparr>)"
  using assms by (simp add: routine_defs store_defs)

lemma refreshToken_no_access:
  assumes "getRefreshToken (tokens w) = Some r" and "r \<noteq> []"
    and "backend (renewal_request r) = Resolved d" and "\<not> truthy (access d)"
  shows "refreshToken backend w =
           (Inl (Error ''Token refresh failed''),
            \<lparr>tokens = empty_store, sent = sent w @ [renewal_request r]\<rparr>)"
  using assms by (cases "access d") (simp_all add: routine_defs store_defs)

lemma refreshToken_renewed:
  assumes "getRefreshToken (tokens w) = Some r" and "r \<noteq> []"
    and "backend (renewal_request r) = Resolved d" and "access d = Some a" and "a \<noteq> []"
  shows "refreshToken backend w =
           (Inr a,
            \<lparr>tokens = \<lparr>stored_access = Some a,
                        stored_refresh = (if truthy (refresh d) then refresh d else Some r)\<rparr>,
             sent = sent w @ [renewal_request r]\<rparr>)"
  using assms by (cases "refresh d") (simp_all add: routine_defs store_defs)

text \<open>
  The routine contacts the backend exactly when the stored refresh token is truthy, and
  then with the renewal request for that token.
\<close>

lemma refreshToken_sent:
  "sent (snd (refreshToken backend w)) =
     (case getRefreshToken (tokens w) of
        None \<Rightarrow> sent w
      | Some r \<Rightarrow> if r = [] then sent w else sent w @ [renewal_request r])"
proof (cases "getRefreshToken (tokens w)")
  case None
  then show ?thesis by (simp add: refreshToken_guard)
next
  case (Some r)
  show ?thesis
  proof (cases "r = []")
    case True
    with Some show ?thesis by (simp add: refreshToken_guard)
  next
    case r: False
    show ?thesis
    proof (cases "backend (renewal_request r)")
      case (Rejected e)
      with Some r show ?thesis by (simp add: refreshToken_rejected)
    next
      case ResolvedNoData
      with Some r show ?thesis by (simp add: refreshToken_no_data)
    next
      case (Resolved d)
      show ?thesis
      proof (cases "access d")
        case None
        with Some r Resolved show ?thesis by (simp add: refreshToken_no_access)
      next
        case (Some a)
        note a = this
        show ?thesis
        proof (cases "a = []")
          case True
          with \<open>getRefreshToken (tokens w) = Some r\<close> r Resolved a show ?thesis
            by (simp add: refreshToken_no_access)
        next
          case False
          with \<open>getRefreshToken (tokens w) = Some r\<close> r Resolved a show ?thesis
            by (simp add: refreshToken_renewed)
        qed
      qed
    qed
  qed
qed

section \<open>Renewal that succeeds\<close>

text \<open>
  C1 as stated, with "provided" read as the presence of the field, fails where the
  response carries an empty refresh token: from the stored pair \<open>(a0, r0)\<close> the response
  \<^verbatim>\<open>{access: "a1", refresh: ""}\<close> leaves \<open>(a1, r0)\<close> in the store, not \<open>(a1, "")\<close>, as
  \<^verbatim>\<open>newRefresh || refresh\<close> falls back to the stored token for every falsy value.
\<close>

theorem refreshToken_empty_rotation_counterexample:
  "tokens (snd (refreshToken
       (always (Resolved \<lparr>access = Some ''a1'', refresh = Some ''''\<rparr>))
       \<lparr>tokens = \<lparr>stored_access = Some ''a0'', stored_refresh = Some ''r0''\<rparr>, sent = []\<rparr>))
     = \<lparr>stored_access = Some ''a1'', stored_refresh = Some ''r0''\<rparr>
   \<and> tokens (snd (refreshToken
       (always (Resolved \<lparr>access = Some ''a1'', refresh = Some ''''\<rparr>))
       \<lparr>tokens = \<lparr>stored_access = Some ''a0'', stored_refresh = Some ''r0''\<rparr>, sent = []\<rparr>))
     \<noteq> \<lparr>stored_access = Some ''a1'', stored_refresh = Some ''''\<rparr>"
  by (simp add: routine_defs store_defs always_def)

text \<open>
  C1, amended. For every stored non-empty refresh token \<open>r0\<close> (and any stored access
  token), when the backend resolves the renewal request of \<^verbatim>\<open>refreshToken()\<close> with data
  \<open>d\<close> whose access token \<open>a1\<close> is non-empty, the store ends with \<open>a1\<close> as access token
  and, as refresh token, the response's one if it is provided and non-empty, otherwise
  \<open>r0\<close>: \<^verbatim>\<open>{access: a1}\<close> yields \<open>(a1, r0)\<close>, \<^verbatim>\<open>{access: a1, refresh: r1}\<close> with \<open>r1\<close>
  non-empty yields \<open>(a1, r1)\<close>, and \<^verbatim>\<open>{access: a1, refresh: ""}\<close> yields \<open>(a1, r0)\<close>.
\<close>

theorem refreshToken_renewal_stores_tokens:
  assumes "getRefreshToken (tokens w) = Some r0" and "r0 \<noteq> []"
    and "backend (renewal_request r0) = Resolved d"
    and "access d = Some a1" and "a1 \<noteq> []"
  shows "tokens (snd (refreshToken backend w)) =
           \<lparr>stored_access = Some a1,
            stored_refresh = (if truthy (refresh d) then refresh d else Some r0)\<rparr>"
  using assms by (simp add: refreshToken_renewed)

theorem refreshToken_renewal_stores_tokens_witness:
  "tokens (snd (refreshToken
       (always (Resolved \<lparr>access = Some ''a1'', refresh = None\<rparr>))
       \<lparr>tokens = \<lparr>stored_access = Some ''a0'', stored_refresh = Some ''r0''\<rparr>, sent = []\<rparr>))
     = \<lparr>stored_access = Some ''a1'', stored_refresh = Some ''r0''\<rparr>
   \<and> tokens (snd (refreshToken
       (always (Resolved \<lparr>access = Some ''a2'', refresh = Some ''r1''\<rparr>))
       \<lparr>tokens = \<lparr>stored_access = Some ''a0'', stored_refresh = Some ''r0''\<rparr>, sent = []\<rparr>))
     = \<lparr>stored_access = Some ''a2'', stored_refresh = Some ''r1''\<rparr>"
proof -
  let ?w = "\<lparr>tokens = \<lparr>stored_access = Some ''a0'', stored_refresh = Some ''r0''\<rparr>, sent = []\<rparr>"
  let ?d = "\<lparr>access = Some ''a1'', refresh = None\<rparr>"
  let ?d' = "\<lparr>access = Some ''a2'', refresh = Some ''r1''\<rparr>"
  have stored: "getRefreshToken (tokens ?w) = Some ''r0''"
    by (simp add: getRefreshToken_def)
  have nonempty: "''r0'' \<noteq> []" by simp
  have reply_d: "always (Resolved ?d) (renewal_request ''r0'') = Resolved ?d"
    by (simp add: always_def)
  have reply_d': "always (Resolved ?d') (renewal_request ''r0'') = Resolved ?d'"
    by (simp add: always_def)
  have "tokens (snd (refreshToken (always (Resolved ?d)) ?w))
          = \<lparr>stored_access = Some ''a1'', stored_refresh = Some ''r0''\<rparr>"
    using stored nonempty reply_d
      refreshToken_renewal_stores_tokens [of ?w "''r0''" "always (Resolved ?d)" ?d "''a1''"]
    by simp
  moreover
  have "tokens (snd (refreshToken (always (Resolved ?d')) ?w))
          = \<lparr>stored_access = Some ''a2'', stored_refresh = Some ''r1''\<rparr>"
    using stored nonempty reply_d'
      refreshToken_renewal_stores_tokens [of ?w "''r0''" "always (Resolved ?d')" ?d' "''a2''"]
    by simp
  ultimately show ?thesis by simp
qed

text \<open>
  C10. On every successful renewal, that is when a non-empty refresh token \<open>r\<close> is stored
  and the backend resolves the renewal request with a truthy access token \<open>a1\<close>,
  \<^verbatim>\<open>refreshToken()\<close> returns \<open>a1\<close> to its caller, and the session it returns in already
  holds \<open>a1\<close> as the stored access token.
\<close>

theorem refreshToken_returns_new_access:
  assumes "getRefreshToken (tokens w) = Some r" and "r \<noteq> []"
    and "backend (renewal_request r) = Resolved d"
    and "access d = Some a1" and "truthy (Some a1)"
  shows "fst (refreshToken backend w) = Inr a1 \<and>
         getAccessToken (tokens (snd (refreshToken backend w))) = Some a1"
  using assms by (simp add: refreshToken_renewed getAccessToken_def)

theorem refreshToken_returns_new_access_witness:
  "fst (refreshToken
       (always (Resolved \<lparr>access = Some ''a1'', refresh = None\<rparr>))
       \<lparr>tokens = \<lparr>stored_access = Some ''a0'', stored_refresh = Some ''r0''\<rparr>, sent = []\<rparr>)
     = Inr ''a1''
   \<and> getAccessToken (tokens (snd (refreshToken
       (always (Resolved \<lparr>access = Some ''a1'', refresh = None\<rparr>))
       \<lparr>tokens = \<lparr>stored_access = Some ''a0'', stored_refresh = Some ''r0''\<rparr>, sent = []\<rparr>)))
     = Some ''a1''"
proof -
  let ?w = "\<lparr>tokens = \<lparr>stored_access = Some ''a0'', stored_refresh = Some ''r0''\<rparr>, sent = []\<rparr>"
  let ?d = "\<lparr>access = Some ''a1'', refresh = None\<rparr>"
  have stored: "getRefreshToken (tokens ?w) = Some ''r0''"
    by (simp add: getRefreshToken_def)
  have nonempty: "''r0'' \<noteq> []" by simp
  have reply_d: "always (Resolved ?d) (renewal_request ''r0'') = Resolved ?d"
    by (simp add: always_def)
  show ?thesis
    using stored nonempty reply_d
      refreshToken_returns_new_access [of ?w "''r0''" "always (Resolved ?d)" ?d "''a1''"]
    by simp
qed

section \<open>Renewal that fails\<close>

text \<open>
  C2. Whenever \<^verbatim>\<open>refreshToken()\<close> is called while no refresh token is stored, it throws
  the error "No refresh token found", the store is left cleared, and no request has been
  sent to the backend.
\<close>

theorem refreshToken_no_refresh_token:
  assumes "getRefreshToken (tokens w) = None"
  shows "refreshToken backend w =
           (Inl (Error ''No refresh token found''), \<lparr>tokens = empty_store, sent = sent w\<rparr>)"
  using assms by (simp add: refreshToken_guard)

theorem refreshToken_no_refresh_token_witness:
  "getRefreshToken (tokens \<lparr>tokens = \<lparr>stored_access = Some ''a0'', stored_refresh = None\<rparr>,
                             sent = []\<rparr>) = None
   \<and> refreshToken (always (Resolved \<lparr>access = Some ''a1'', refresh = Some ''r1''\<rparr>))
       \<lparr>tokens = \<lparr>stored_access = Some ''a0'', stored_refresh = None\<rparr>, sent = []\<rparr>
     = (Inl (Error ''No refresh token found''), \<lparr>tokens = empty_store, sent = []\<rparr>)"
proof -
  let ?w = "\<lparr>tokens = \<lparr>stored_access = Some ''a0'', stored_refresh = None\<rparr>, sent = []\<rparr>"
  have none: "getRefreshToken (tokens ?w) = None"
    by (simp add: getRefreshToken_def)
  show ?thesis
    using none refreshToken_no_refresh_token [OF none,
        of "always (Resolved \<lparr>access = Some ''a1'', refresh = Some ''r1''\<rparr>)"]
    by simp
qed

text \<open>
  C3. For every prior session, whatever access token it stores and whatever non-empty
  refresh token \<open>r\<close>, if the renewal call of \<^verbatim>\<open>refreshToken()\<close> is rejected with an
  error \<open>e\<close> (a transport failure, a server error, the refusal of the refresh token), the
  routine throws that same \<open>e\<close> to its caller and the store ends empty: both tokens are
  cleared. The request was sent once.
\<close>

theorem refreshToken_failed_call_clears:
  assumes "getRefreshToken (tokens w) = Some r" and "r \<noteq> []"
    and "backend (renewal_request r) = Rejected e"
  shows "fst (refreshToken backend w) = Inl e \<and>
         tokens (snd (refreshToken backend w)) = empty_store \<and>
         sent (snd (refreshToken backend w)) = sent w @ [renewal_request r]"
  using assms by (simp add: refreshToken_rejected)

theorem refreshToken_failed_call_clears_witness:
  "fst (refreshToken (always (Rejected (AxiosError (Some 500))))
       \<lparr>tokens = \<lparr>stored_access = Some ''a0'', stored_refresh = Some ''r0''\<rparr>, sent = []\<rparr>)
     = Inl (AxiosError (Some 500))
   \<and> tokens (snd (refreshToken (always (Rejected (AxiosError (Some 500))))
       \<lparr>tokens = \<lparr>stored_access = Some ''a0'', stored_refresh = Some ''r0''\<rparr>, sent = []\<rparr>))
     = empty_store"
proof -
  let ?w = "\<lparr>tokens = \<lparr>stored_access = Some ''a0'', stored_refresh = Some ''r0''\<rparr>, sent = []\<rparr>"
  let ?b = "always (Rejected (AxiosError (Some 500)))"
  have stored: "getRefreshToken (tokens ?w) = Some ''r0''"
    by (simp add: getRefreshToken_def)
  have nonempty: "''r0'' \<noteq> []" by simp
  have rejected: "?b (renewal_request ''r0'') = Rejected (AxiosError (Some 500))"
    by (simp add: always_def)
  show ?thesis
    using stored nonempty rejected
      refreshToken_failed_call_clears [of ?w "''r0''" ?b "AxiosError (Some 500)"]
    by simp
qed

text \<open>
  C4 fails on the code where the renewal endpoint answers successfully with no data at
  all (\<^verbatim>\<open>res.data\<close> is \<^verbatim>\<open>null\<close>): such a response contains no new access token, but the
  destructuring of \<^verbatim>\<open>res.data\<close> throws before the test \<^verbatim>\<open>if (access)\<close> is reached, so
  the caller gets a \<^verbatim>\<open>TypeError\<close> and not the error "Token refresh failed". Both tokens
  are cleared all the same. For data that are an object without a truthy access token the
  routine does throw "Token refresh failed" (lemma \<open>refreshToken_no_access\<close>).
\<close>

theorem refreshToken_no_data_type_error:
  "refreshToken (always ResolvedNoData)
       \<lparr>tokens = \<lparr>stored_access = Some ''a0'', stored_refresh = Some ''r0''\<rparr>, sent = []\<rparr>
     = (Inl TypeError, \<lparr>tokens = empty_store, sent = [renewal_request ''r0'']\<rparr>)
   \<and> fst (refreshToken (always ResolvedNoData)
       \<lparr>tokens = \<lparr>stored_access = Some ''a0'', stored_refresh = Some ''r0''\<rparr>, sent = []\<rparr>)
     \<noteq> Inl (Error ''Token refresh failed'')"
  by (simp add: routine_defs store_defs always_def)

text \<open>
  C9. The test on the response's access token is truthiness, not the presence of the
  field: when a non-empty refresh token \<open>r\<close> is stored and the backend resolves the
  renewal request with data whose access field is present but the empty string, the
  routine throws the error "Token refresh failed" and clears both tokens; the empty access
  token is not stored.
\<close>

theorem refreshToken_empty_access_fails:
  assumes "getRefreshToken (tokens w) = Some r" and "r \<noteq> []"
    and "backend (renewal_request r) = Resolved d"
    and "access d = Some []"
  shows "fst (refreshToken backend w) = Inl (Error ''Token refresh failed'') \<and>
         tokens (snd (refreshToken backend w)) = empty_store \<and>
         getAccessToken (tokens (snd (refreshToken backend w))) \<noteq> Some []"
  using assms by (simp add: refreshToken_no_access store_defs)

theorem refreshToken_empty_access_fails_witness:
  "fst (refreshToken (always (Resolved \<lparr>access = Some '''', refresh = None\<rparr>))
       \<lparr>tokens = \<lparr>stored_access = Some ''a0'', stored_refresh = Some ''r0''\<rparr>, sent = []\<rparr>)
     = Inl (Error ''Token refresh failed'')
   \<and> tokens (snd (refreshToken (always (Resolved \<lparr>access = Some '''', refresh = None\<rparr>))
       \<lparr>tokens = \<lparr>stored_access = Some ''a0'', stored_refresh = Some ''r0''\<rparr>, sent = []\<rparr>))
     = empty_store"
proof -
  let ?w = "\<lparr>tokens = \<lparr>stored_access = Some ''a0'', stored_refresh = Some ''r0''\<rparr>, sent = []\<rparr>"
  let ?d = "\<lparr>access = Some '''', refresh = None\<rparr>"
  have stored: "getRefreshToken (tokens ?w) = Some ''r0''"
    by (simp add: getRefreshToken_def)
  have nonempty: "''r0'' \<noteq> []" by simp
  have reply_d: "always (Resolved ?d) (renewal_request ''r0'') = Resolved ?d"
    by (simp add: always_def)
  show ?thesis
    using stored nonempty reply_d
      refreshToken_empty_access_fails [of ?w "''r0''" "always (Resolved ?d)" ?d]
    by simp
qed

section \<open>The renewal request\<close>

text \<open>
  C6 as stated fails for a stored refresh token that is the empty string: the guard
  \<^verbatim>\<open>if (!refresh)\<close> takes it for a missing token and the routine throws before any
  request is sent, so the invocation issues no request instead of one.
\<close>

theorem refreshToken_empty_refresh_counterexample:
  "getRefreshToken (tokens
       \<lparr>tokens = \<lparr>stored_access = Some ''a0'', stored_refresh = Some ''''\<rparr>, sent = []\<rparr>)
     = Some ''''
   \<and> sent (snd (refreshToken
       (always (Resolved \<lparr>access = Some ''a1'', refresh = Some ''r1''\<rparr>))
       \<lparr>tokens = \<lparr>stored_access = Some ''a0'', stored_refresh = Some ''''\<rparr>, sent = []\<rparr>))
     = []"
  by (simp add: routine_defs store_defs always_def)

text \<open>
  C6, amended. Each invocation of \<^verbatim>\<open>refreshToken()\<close> with a stored non-empty refresh
  token \<open>r\<close> adds exactly one request to those sent, whatever the backend answers: a POST
  to the renewal endpoint \<^verbatim>\<open>/token/refresh/\<close> whose body is \<^verbatim>\<open>{ refresh: r }\<close>. The
  routine never sends it again.
\<close>

theorem refreshToken_single_request:
  assumes "getRefreshToken (tokens w) = Some r" and "r \<noteq> []"
  shows "sent (snd (refreshToken backend w)) = sent w @ [renewal_request r] \<and>
         http_method (renewal_request r) = ''POST'' \<and>
         url (renewal_request r) = ''/token/refresh/'' \<and>
         body (renewal_request r) = [(''refresh'', r)]"
  using assms by (simp add: refreshToken_sent renewal_request_def)

theorem refreshToken_single_request_witness:
  "sent (snd (refreshToken (always (Rejected (AxiosError None)))
       \<lparr>tokens = \<lparr>stored_access = Some ''a0'', stored_refresh = Some ''r0''\<rparr>, sent = []\<rparr>))
     = [\<lparr>http_method = ''POST'', url = ''/token/refresh/'', body = [(''refresh'', ''r0'')],
         headers = [(''Content-Type'', ''application/json'')]\<rparr>]"
proof -
  let ?w = "\<lparr>tokens = \<lparr>stored_access = Some ''a0'', stored_refresh = Some ''r0''\<rparr>, sent = []\<rparr>"
  have stored: "getRefreshToken (tokens ?w) = Some ''r0''"
    by (simp add: getRefreshToken_def)
  have nonempty: "''r0'' \<noteq> []" by simp
  show ?thesis
    using refreshToken_single_request [OF stored nonempty,
        of "always (Rejected (AxiosError None))"]
    by (simp add: renewal_request_def)
qed

section \<open>The pair as a unit\<close>

lemma refreshToken_paired: "paired (tokens (snd (refreshToken backend w)))"
proof (cases "truthy (getRefreshToken (tokens w))")
  case False
  then show ?thesis by (simp add: refreshToken_guard paired_def store_defs)
next
  case True
  then obtain r where r: "getRefreshToken (tokens w) = Some r" "r \<noteq> []"
    by (cases "getRefreshToken (tokens w)") simp_all
  show ?thesis
  proof (cases "backend (renewal_request r)")
    case (Rejected e)
    with r show ?thesis by (simp add: refreshToken_rejected paired_def store_defs)
  next
    case ResolvedNoData
    with r show ?thesis by (simp add: refreshToken_no_data paired_def store_defs)
  next
    case (Resolved d)
    show ?thesis
    proof (cases "truthy (access d)")
      case False
      with r Resolved show ?thesis by (simp add: refreshToken_no_access paired_def store_defs)
    next
      case True
      then obtain a where "access d = Some a" "a \<noteq> []" by (cases "access d") simp_all
      with r Resolved show ?thesis
        by (cases "refresh d") (simp_all add: refreshToken_renewed paired_def store_defs)
    qed
  qed
qed

lemma apply_op_paired:
  assumes "paired (tokens w)" and "supplies_pair p w"
  shows "paired (tokens (apply_op p w))"
proof (cases p)
  case (SetTokens a r_opt)
  with assms show ?thesis
    by (cases r_opt) (auto simp: paired_def store_defs)
next
  case ClearTokens
  then show ?thesis by (simp add: paired_def store_defs)
next
  case (RefreshToken backend)
  then show ?thesis by (simp add: refreshToken_paired)
qed

lemma run_paired:
  "paired (tokens w) \<Longrightarrow> admissible ps w \<Longrightarrow> paired (tokens (run ps w))"
  by (induction ps arbitrary: w) (simp_all add: apply_op_paired)

text \<open>
  C5 as stated fails: \<^verbatim>\<open>setTokens\<close> takes its refresh argument as optional, and called
  on the empty store with an access token only it leaves an access token stored without
  a refresh token.
\<close>

theorem setTokens_access_only_counterexample:
  "\<not> paired (tokens (run [SetTokens ''a1'' None] initial_session))"
  by (simp add: initial_session_def paired_def store_defs)

text \<open>
  C5, amended. Starting from the empty store, after any sequence of \<^verbatim>\<open>setTokens\<close>,
  \<^verbatim>\<open>clearTokens\<close> and \<^verbatim>\<open>refreshToken\<close> operations in which every \<^verbatim>\<open>setTokens\<close> call
  either supplies a refresh token or is made while a refresh token is stored, either both
  the access token and the refresh token are stored or neither is.
\<close>

theorem run_keeps_pair:
  assumes "admissible ps initial_session"
  shows "paired (tokens (run ps initial_session))"
proof -
  have "paired (tokens initial_session)"
    by (simp add: initial_session_def paired_def store_defs)
  then show ?thesis using assms by (rule run_paired)
qed

theorem run_keeps_pair_witness:
  "admissible
     [SetTokens ''a1'' (Some ''r1''), SetTokens ''a2'' None,
      RefreshToken (always (Resolved \<lparr>access = Some ''a3'', refresh = None\<rparr>)),
      RefreshToken (always (Rejected (AxiosError (Some 401)))),
      ClearTokens] initial_session
   \<and> paired (tokens (run
     [SetTokens ''a1'' (Some ''r1''), SetTokens ''a2'' None,
      RefreshToken (always (Resolved \<lparr>access = Some ''a3'', refresh = None\<rparr>)),
      RefreshToken (always (Rejected (AxiosError (Some 401)))),
      ClearTokens] initial_session))"
proof -
  let ?ps = "[SetTokens ''a1'' (Some ''r1''), SetTokens ''a2'' None,
      RefreshToken (always (Resolved \<lparr>access = Some ''a3'', refresh = None\<rparr>)),
      RefreshToken (always (Rejected (AxiosError (Some 401)))),
      ClearTokens]"
  have adm: "admissible ?ps initial_session"
    by (simp add: initial_session_def routine_defs store_defs always_def)
  show ?thesis
    using adm run_keeps_pair [OF adm] by simp
qed

section \<open>The store round-trips\<close>

text \<open>
  C8. Immediately after \<^verbatim>\<open>setTokens(a, r)\<close>, \<^verbatim>\<open>getAccessToken()\<close> returns \<open>a\<close> and
  \<^verbatim>\<open>getRefreshToken()\<close> returns \<open>r\<close>, whatever the store held before.
\<close>

theorem setTokens_round_trip:
  "getAccessToken (setTokens a (Some r) s) = Some a \<and>
   getRefreshToken (setTokens a (Some r) s) = Some r"
  by (simp add: setTokens_def getAccessToken_def getRefreshToken_def)

text \<open>
  C7. After \<^verbatim>\<open>setTokens(a1, r1)\<close> followed by \<^verbatim>\<open>setTokens(a2)\<close> with no refresh
  argument, \<^verbatim>\<open>getAccessToken()\<close> returns \<open>a2\<close> and \<^verbatim>\<open>getRefreshToken()\<close> still
  returns \<open>r1\<close>.
\<close>

theorem setTokens_access_only_keeps_refresh:
  "getAccessToken (setTokens a2 None (setTokens a1 (Some r1) s)) = Some a2 \<and>
   getRefreshToken (setTokens a2 None (setTokens a1 (Some r1) s)) = Some r1"
  by (simp add: setTokens_def getAccessToken_def getRefreshToken_def)

end
